theory Spec2Isabelle
  imports Main "HOL-Library.Word"
begin

section \<open>JavaScript strings\<close>

text \<open>
  A JavaScript string is a sequence of 16-bit code units. The literals of
  \<^verbatim>\<open>src/services/llm.ts\<close> are ASCII; \<open>ascii\<close> turns an Isabelle literal into such a
  sequence.
\<close>

type_synonym code_unit = "16 word"

type_synonym jsstring = "code_unit list"

definition ascii :: "string \<Rightarrow> jsstring" where
  "ascii s = map of_char s"

text \<open>
  \<^verbatim>\<open>String.prototype.trim\<close> strips, at both ends, the code units that ECMAScript calls
  WhiteSpace (TAB, VT, FF, the space separators, U+FEFF) or LineTerminator (LF, CR,
  U+2028, U+2029).
\<close>

definition isWhiteSpace :: "code_unit \<Rightarrow> bool" where
  "isWhiteSpace c \<longleftrightarrow>
     c = 0x0009 \<or> c = 0x000A \<or> c = 0x000B \<or> c = 0x000C \<or> c = 0x000D \<or>
     c = 0x0020 \<or> c = 0x00A0 \<or> c = 0x1680 \<or> (0x2000 \<le> c \<and> c \<le> 0x200A) \<or>
     c = 0x2028 \<or> c = 0x2029 \<or> c = 0x202F \<or> c = 0x205F \<or> c = 0x3000 \<or> c = 0xFEFF"

definition trim :: "jsstring \<Rightarrow> jsstring" where
  "trim s = rev (dropWhile isWhiteSpace (rev (dropWhile isWhiteSpace s)))"

text \<open>\<^verbatim>\<open>s.includes(t)\<close>: \<open>t\<close> occurs in \<open>s\<close> as a contiguous run of code units.\<close>

fun str_includes :: "jsstring \<Rightarrow> jsstring \<Rightarrow> bool" where
  "str_includes [] t \<longleftrightarrow> t = []"
| "str_includes (c # cs) t \<longleftrightarrow> take (length t) (c # cs) = t \<or> str_includes cs t"

text \<open>
  The text a template literal gives for a non-negative integer such as
  \<^verbatim>\<open>response.status\<close>: its decimal digits.
\<close>

definition digit :: "nat \<Rightarrow> code_unit" where
  "digit d = of_nat (48 + d)"

fun decimal :: "nat \<Rightarrow> jsstring" where
  "decimal n = (if n < 10 then [digit n] else decimal (n div 10) @ [digit (n mod 10)])"

declare decimal.simps [simp del]

section \<open>JavaScript values\<close>

text \<open>
  What \<^verbatim>\<open>response.json()\<close> can give, and \<^verbatim>\<open>undefined\<close>, which reading a missing
  property gives. The cast \<^verbatim>\<open>as ChatCompletionResponse\<close> is not checked when the program
  runs, so the parsed body is any JSON value. A number is carried as the text
  \<^verbatim>\<open>Number.prototype.toString\<close> gives for it (\<open>0\<close> and \<open>-0\<close> both read \<^verbatim>\<open>0\<close>); an object as
  the list of its own properties.
\<close>

datatype jsval =
    JUndefined
  | JNull
  | JBool bool
  | JNum jsstring
  | JStr jsstring
  | JArr "jsval list"
  | JObj "(jsstring \<times> jsval) list"

text \<open>ToBoolean, as \<^verbatim>\<open>if (x)\<close>, \<^verbatim>\<open>!x\<close> and \<^verbatim>\<open>x ? a : b\<close> apply it.\<close>

fun truthy :: "jsval \<Rightarrow> bool" where
  "truthy JUndefined \<longleftrightarrow> False"
| "truthy JNull \<longleftrightarrow> False"
| "truthy (JBool b) \<longleftrightarrow> b"
| "truthy (JNum t) \<longleftrightarrow> t \<noteq> ascii ''0'' \<and> t \<noteq> ascii ''NaN''"
| "truthy (JStr s) \<longleftrightarrow> s \<noteq> []"
| "truthy (JArr xs) \<longleftrightarrow> True"
| "truthy (JObj kvs) \<longleftrightarrow> True"

fun nullish :: "jsval \<Rightarrow> bool" where
  "nullish JUndefined \<longleftrightarrow> True"
| "nullish JNull \<longleftrightarrow> True"
| "nullish v \<longleftrightarrow> False"

text \<open>
  \<^verbatim>\<open>v.name\<close> on a value that is neither \<^verbatim>\<open>null\<close> nor \<^verbatim>\<open>undefined\<close>, for the names the
  service reads (\<^verbatim>\<open>error\<close>, \<^verbatim>\<open>choices\<close>, \<^verbatim>\<open>message\<close>, \<^verbatim>\<open>content\<close>): none of them is a
  property of a built-in prototype, so only an object's own property is found.
\<close>

fun get_prop :: "jsval \<Rightarrow> jsstring \<Rightarrow> jsval" where
  "get_prop (JObj kvs) name = (case map_of kvs name of Some v \<Rightarrow> v | None \<Rightarrow> JUndefined)"
| "get_prop v name = JUndefined"

text \<open>
  \<^verbatim>\<open>v[0]\<close> on such a value: the first element of an array, the first code unit of a
  string, the property \<^verbatim>\<open>"0"\<close> of an object.
\<close>

fun index0 :: "jsval \<Rightarrow> jsval" where
  "index0 (JArr xs) = (case xs of [] \<Rightarrow> JUndefined | x # _ \<Rightarrow> x)"
| "index0 (JStr s) = (case s of [] \<Rightarrow> JUndefined | c # _ \<Rightarrow> JStr [c])"
| "index0 (JObj kvs) = get_prop (JObj kvs) (ascii ''0'')"
| "index0 v = JUndefined"

text \<open>Optional chaining \<^verbatim>\<open>v?.p\<close>: \<^verbatim>\<open>undefined\<close> when \<open>v\<close> is \<^verbatim>\<open>null\<close> or \<^verbatim>\<open>undefined\<close>.\<close>

definition opt_chain :: "jsval \<Rightarrow> (jsval \<Rightarrow> jsval) \<Rightarrow> jsval" where
  "opt_chain v access = (if nullish v then JUndefined else access v)"

section \<open>Errors\<close>

datatype error_code = NO_API_KEY | API_ERROR | RATE_LIMIT | INVALID_RESPONSE | NETWORK_ERROR

record LLMError =
  message :: jsstring
  code :: error_code

text \<open>
  What a \<^verbatim>\<open>throw\<close> or a rejected promise carries, as far as the \<^verbatim>\<open>catch\<close> block of
  \<^verbatim>\<open>refactorPrompt\<close> tells values apart: an \<^verbatim>\<open>LLMError\<close>; a \<^verbatim>\<open>TypeError\<close> with its
  message; any other \<^verbatim>\<open>Error\<close> (a \<^verbatim>\<open>SyntaxError\<close> of the JSON parser, an abort) with its
  message; a value that is no \<^verbatim>\<open>Error\<close>, with the text \<^verbatim>\<open>String(error)\<close> gives for it.
\<close>

datatype thrown =
    Thrown_LLMError LLMError
  | Thrown_TypeError jsstring
  | Thrown_Error jsstring
  | Thrown_value jsstring

text \<open>
  Reading a property throws on \<^verbatim>\<open>null\<close> and \<^verbatim>\<open>undefined\<close>. The message is the one of V8,
  the engine of the extension host.
\<close>

definition cannot_read :: "jsval \<Rightarrow> jsstring \<Rightarrow> thrown" where
  "cannot_read v name = Thrown_TypeError
     (ascii ''Cannot read properties of '' @
      (if v = JNull then ascii ''null'' else ascii ''undefined'') @
      ascii '' (reading '' @ [0x27] @ name @ [0x27] @ ascii '')'')"

definition read_prop :: "jsval \<Rightarrow> jsstring \<Rightarrow> thrown + jsval" where
  "read_prop v name = (if nullish v then Inl (cannot_read v name) else Inr (get_prop v name))"

text \<open>
  ToString, as a template literal \<^verbatim>\<open>`${x}`\<close> applies it. An array is the texts of its
  elements joined by commas, \<^verbatim>\<open>null\<close> and \<^verbatim>\<open>undefined\<close> elements giving the empty text.
  A parsed object reads \<^verbatim>\<open>[object Object]\<close>, unless it has an own property
  \<^verbatim>\<open>toString\<close>: that is JSON data and no function, \<^verbatim>\<open>valueOf\<close> gives no primitive
  either, and the conversion throws a \<^verbatim>\<open>TypeError\<close>.
\<close>

fun ToString :: "jsval \<Rightarrow> thrown + jsstring"
  and join_elements :: "jsval list \<Rightarrow> thrown + jsstring" where
  "ToString JUndefined = Inr (ascii ''undefined'')"
| "ToString JNull = Inr (ascii ''null'')"
| "ToString (JBool b) = Inr (if b then ascii ''true'' else ascii ''false'')"
| "ToString (JNum t) = Inr t"
| "ToString (JStr s) = Inr s"
| "ToString (JArr xs) = join_elements xs"
| "ToString (JObj kvs) =
     (if map_of kvs (ascii ''toString'') = None then Inr (ascii ''[object Object]'')
      else Inl (Thrown_TypeError (ascii ''Cannot convert object to primitive value'')))"
| "join_elements [] = Inr []"
| "join_elements (x # xs) =
     (case (if nullish x then Inr [] else ToString x) of
        Inl e \<Rightarrow> Inl e
      | Inr s \<Rightarrow>
          (if xs = [] then Inr s
           else (case join_elements xs of
                   Inl e \<Rightarrow> Inl e
                 | Inr rest \<Rightarrow> Inr (s @ ascii '','' @ rest))))"

section \<open>The service of \<^verbatim>\<open>src/services/llm.ts\<close>\<close>

fun join_lines :: "string list \<Rightarrow> jsstring" where
  "join_lines [] = []"
| "join_lines [l] = ascii l"
| "join_lines (l # ls) = ascii l @ [0x000A] @ join_lines ls"

definition SYSTEM_PROMPT :: jsstring where
  "SYSTEM_PROMPT = join_lines [
     ''You are an expert prompt engineer specializing in crafting high-quality prompts for Large Language Models (LLMs) like ChatGPT, Claude, and other AI systems.'',
     '''',
     ''Your task is to REFACTOR and IMPROVE the user's prompt. You must NOT answer or respond to the prompt itself.'',
     '''',
     ''## Your Refactoring Guidelines:'',
     '''',
     ''1. **Clarity**: Remove vague language, ambiguous terms, and unclear instructions'',
     ''2. **Structure**: Organize the prompt with clear sections when appropriate:'',
     ''   - Role/Persona (if beneficial)'',
     ''   - Context/Background'',
     ''   - Task/Objective'',
     ''   - Constraints/Requirements'',
     ''   - Output Format'',
     ''3. **Specificity**: Add specific details, examples, or constraints where the original is too vague'',
     ''4. **Intent Preservation**: Maintain the original intent and goal of the prompt'',
     ''5. **Actionability**: Ensure the prompt gives the LLM clear, actionable instructions'',
     '''',
     ''## Output Format:'',
     '''',
     ''Provide ONLY the refactored prompt. Do not include:'',
     ''- Explanations of your changes'',
     ''- Commentary about the original prompt'',
     ''- Answers to the prompt'',
     ''- Meta-discussion'',
     '''',
     ''Just output the improved, ready-to-use prompt.'']"

text \<open>
  \<^verbatim>\<open>getConfig\<close> reads the editor's settings; the configuration it returns is a parameter
  here. \<^verbatim>\<open>maxTokens\<close> is a number, carried as its text like every number.
\<close>

record LLMConfig =
  apiKey :: jsstring
  apiEndpoint :: jsstring
  model :: jsstring
  maxTokens :: jsstring

text \<open>
  What the service reads of the \<^verbatim>\<open>Response\<close> that \<^verbatim>\<open>fetch\<close> resolves to: the status, the
  header lookup \<^verbatim>\<open>headers.get\<close> (\<open>None\<close> for \<^verbatim>\<open>null\<close>), and what \<^verbatim>\<open>text()\<close> and
  \<^verbatim>\<open>json()\<close> resolve to or reject with. \<^verbatim>\<open>response.ok\<close> is the platform's getter: the status
  is in the range 200 to 299.
\<close>

record response =
  status :: nat
  headers :: "jsstring \<Rightarrow> jsstring option"
  body_text :: "thrown + jsstring"
  body_json :: "thrown + jsval"

definition ok :: "response \<Rightarrow> bool" where
  "ok r \<longleftrightarrow> 200 \<le> status r \<and> status r \<le> 299"

text \<open>
  One call of \<^verbatim>\<open>fetch\<close>: the URL and the \<^verbatim>\<open>init\<close> object. \<open>body\<close> is the object handed
  to \<^verbatim>\<open>JSON.stringify\<close>, whose text goes on the wire. The network is a parameter: a
  function from the call to what the promise settles with.
\<close>

record fetch_call =
  url :: jsstring
  http_method :: jsstring
  content_type :: jsstring
  authorization :: jsstring
  body :: jsval

type_synonym transport = "fetch_call \<Rightarrow> thrown + response"

definition validateApiKey :: "jsstring \<Rightarrow> LLMError + unit" where
  "validateApiKey key =
     (if key = [] \<or> trim key = [] then
        Inl \<lparr>message = ascii ''No API key configured. Please set your API key in Settings > Extensions > PromptLint.'',
             code = NO_API_KEY\<rparr>
      else Inr ())"

definition requestBody :: "LLMConfig \<Rightarrow> jsstring \<Rightarrow> jsval" where
  "requestBody config rawPrompt = JObj [
     (ascii ''model'', JStr (model config)),
     (ascii ''messages'', JArr [
        JObj [(ascii ''role'', JStr (ascii ''system'')), (ascii ''content'', JStr SYSTEM_PROMPT)],
        JObj [(ascii ''role'', JStr (ascii ''user'')), (ascii ''content'', JStr rawPrompt)]]),
     (ascii ''max_tokens'', JNum (maxTokens config)),
     (ascii ''temperature'', JNum (ascii ''0.7''))]"

text \<open>Lines 121 to 128: the arguments of \<^verbatim>\<open>fetch\<close>.\<close>

definition fetch_request :: "LLMConfig \<Rightarrow> jsstring \<Rightarrow> fetch_call" where
  "fetch_request config rawPrompt =
     \<lparr>url = apiEndpoint config,
      http_method = ascii ''POST'',
      content_type = ascii ''application/json'',
      authorization = ascii ''Bearer '' @ apiKey config,
      body = requestBody config rawPrompt\<rparr>"

text \<open>
  \<^verbatim>\<open>refactoredPrompt.trim()\<close> on a truthy value: a string is trimmed; any other value has
  no function \<^verbatim>\<open>trim\<close>, and the call throws a \<^verbatim>\<open>TypeError\<close> (V8's message).
\<close>

fun call_trim :: "jsval \<Rightarrow> thrown + jsstring" where
  "call_trim (JStr s) = Inr (trim s)"
| "call_trim v = Inl (Thrown_TypeError (ascii ''refactoredPrompt.trim is not a function''))"

text \<open>Line 167: \<^verbatim>\<open>data.choices?.[0]?.message?.content\<close>, for \<open>data\<close> not \<^verbatim>\<open>null\<close>.\<close>

definition choice_content :: "jsval \<Rightarrow> jsval" where
  "choice_content data =
     opt_chain
       (opt_chain
          (opt_chain (get_prop data (ascii ''choices'')) index0)
          (\<lambda>choice. get_prop choice (ascii ''message'')))
       (\<lambda>msg. get_prop msg (ascii ''content''))"

text \<open>Lines 130 to 175: the statements of the \<^verbatim>\<open>try\<close> block after \<^verbatim>\<open>fetch\<close> has resolved.\<close>

definition interpret_response :: "response \<Rightarrow> thrown + jsstring" where
  "interpret_response response =
     (if status response = 429 then
        (let retryAfter = headers response (ascii ''retry-after'') in
         Inl (Thrown_LLMError
           \<lparr>message = ascii ''Rate limit exceeded. Please try again '' @
              (case retryAfter of
                 None \<Rightarrow> ascii ''later''
               | Some v \<Rightarrow> if v = [] then ascii ''later'' else ascii ''in '' @ v @ ascii '' seconds'') @
              ascii ''.'',
            code = RATE_LIMIT\<rparr>))
      else if status response = 401 then
        Inl (Thrown_LLMError
          \<lparr>message = ascii ''Invalid API key. Please check your API key in Settings > Extensions > PromptLint.'',
           code = NO_API_KEY\<rparr>)
      else if \<not> ok response then
        (case body_text response of
           Inl e \<Rightarrow> Inl e
         | Inr errorBody \<Rightarrow>
             Inl (Thrown_LLMError
               \<lparr>message = ascii ''API request failed ('' @ decimal (status response) @ ascii ''): '' @ errorBody,
                code = API_ERROR\<rparr>))
      else
        (case body_json response of
           Inl e \<Rightarrow> Inl e
         | Inr data \<Rightarrow>
             (case read_prop data (ascii ''error'') of
                Inl e \<Rightarrow> Inl e
              | Inr err \<Rightarrow>
                  if truthy err then
                    (case ToString (get_prop err (ascii ''message'')) of
                       Inl e \<Rightarrow> Inl e
                     | Inr m \<Rightarrow> Inl (Thrown_LLMError \<lparr>message = ascii ''API error: '' @ m, code = API_ERROR\<rparr>))
                  else
                    (let refactoredPrompt = choice_content data
                     in if \<not> truthy refactoredPrompt then
                          Inl (Thrown_LLMError
                            \<lparr>message = ascii ''Invalid response from API: No content in response'',
                             code = INVALID_RESPONSE\<rparr>)
                        else call_trim refactoredPrompt))))"

text \<open>Lines 177 to 196: the \<^verbatim>\<open>catch\<close> block, which always throws an \<^verbatim>\<open>LLMError\<close>.\<close>

definition catch_block :: "thrown \<Rightarrow> LLMError" where
  "catch_block error =
     (case error of
        Thrown_LLMError e \<Rightarrow> e
      | Thrown_TypeError m \<Rightarrow>
          if str_includes m (ascii ''fetch'') then
            \<lparr>message = ascii ''Network error: Unable to connect to the API. Please check your internet connection.'',
             code = NETWORK_ERROR\<rparr>
          else \<lparr>message = ascii ''Unexpected error: '' @ m, code = API_ERROR\<rparr>
      | Thrown_Error m \<Rightarrow> \<lparr>message = ascii ''Unexpected error: '' @ m, code = API_ERROR\<rparr>
      | Thrown_value s \<Rightarrow> \<lparr>message = ascii ''Unexpected error: '' @ s, code = API_ERROR\<rparr>)"

text \<open>
  \<^verbatim>\<open>refactorPrompt\<close>: the calls of \<^verbatim>\<open>fetch\<close> it made, in order, and how its promise
  settles: \<open>Inl\<close> the \<^verbatim>\<open>LLMError\<close> it rejects with, \<open>Inr\<close> the text it resolves to.
\<close>

record outcome =
  calls :: "fetch_call list"
  result :: "LLMError + jsstring"

definition refactorPrompt :: "LLMConfig \<Rightarrow> transport \<Rightarrow> jsstring \<Rightarrow> outcome" where
  "refactorPrompt config fetch rawPrompt =
     (case validateApiKey (apiKey config) of
        Inl e \<Rightarrow> \<lparr>calls = [], result = Inl e\<rparr>
      | Inr _ \<Rightarrow>
          (let call = fetch_request config rawPrompt
           in \<lparr>calls = [call],
               result = (case (case fetch call of Inl e \<Rightarrow> Inl e | Inr response \<Rightarrow> interpret_response response) of
                           Inl error \<Rightarrow> Inl (catch_block error)
                         | Inr refactored \<Rightarrow> Inr refactored)\<rparr>))"

section \<open>Example inputs\<close>

text \<open>The configuration \<^verbatim>\<open>getConfig\<close> returns when only the key has been set.\<close>

definition example_config :: LLMConfig where
  "example_config =
     \<lparr>apiKey = ascii ''sk-test'',
      apiEndpoint = ascii ''https://api.openai.com/v1/chat/completions'',
      model = ascii ''gpt-4'',
      maxTokens = ascii ''2048''\<rparr>"

definition blank_key_config :: LLMConfig where
  "blank_key_config = example_config\<lparr>apiKey := ascii ''   ''\<rparr>"

text \<open>A network that answers every call with one response, and one that fails every call.\<close>

definition respond :: "response \<Rightarrow> transport" where
  "respond r call = Inr r"

definition reject :: "thrown \<Rightarrow> transport" where
  "reject e call = Inl e"

definition no_headers :: "jsstring \<Rightarrow> jsstring option" where
  "no_headers name = None"

definition retry_after :: "jsstring \<Rightarrow> jsstring \<Rightarrow> jsstring option" where
  "retry_after v name = (if name = ascii ''retry-after'' then Some v else None)"

text \<open>A response whose body is the JSON text \<open>t\<close>, which parses to \<open>v\<close>.\<close>

definition json_response :: "nat \<Rightarrow> (jsstring \<Rightarrow> jsstring option) \<Rightarrow> jsstring \<Rightarrow> jsval \<Rightarrow> response" where
  "json_response st hs t v = \<lparr>status = st, headers = hs, body_text = Inr t, body_json = Inr v\<rparr>"

text \<open>A response with an empty body, on which \<^verbatim>\<open>json()\<close> rejects with a \<^verbatim>\<open>SyntaxError\<close>.\<close>

definition empty_response :: "nat \<Rightarrow> (jsstring \<Rightarrow> jsstring option) \<Rightarrow> response" where
  "empty_response st hs =
     \<lparr>status = st, headers = hs, body_text = Inr [],
      body_json = Inl (Thrown_Error (ascii ''Unexpected end of JSON input''))\<rparr>"

definition server_exploded :: response where
  \<open>server_exploded =
     \<lparr>status = 500, headers = no_headers, body_text = Inr (ascii ''server exploded''),
      body_json = Inl (Thrown_Error (ascii ''Unexpected token 's', "server exploded" is not valid JSON''))\<rparr>\<close>

definition improved_text_body :: jsval where
  "improved_text_body =
     JObj [(ascii ''choices'',
       JArr [JObj [(ascii ''message'', JObj [(ascii ''content'', JStr (ascii ''  Improved text  ''))])]])]"

definition improved_text :: response where
  \<open>improved_text =
     json_response 200 no_headers
       (ascii ''{"choices":[{"message":{"content":"  Improved text  "}}]}'') improved_text_body\<close>

definition empty_choices :: response where
  \<open>empty_choices =
     json_response 200 no_headers (ascii ''{"choices":[]}'') (JObj [(ascii ''choices'', JArr [])])\<close>

definition blank_content_body :: jsval where
  "blank_content_body =
     JObj [(ascii ''choices'',
       JArr [JObj [(ascii ''message'', JObj [(ascii ''content'', JStr (ascii ''   ''))])]])]"

definition blank_content :: response where
  \<open>blank_content =
     json_response 200 no_headers
       (ascii ''{"choices":[{"message":{"content":"   "}}]}'') blank_content_body\<close>

text \<open>A reply whose content is a list of parts, not a string.\<close>

definition content_parts_body :: jsval where
  "content_parts_body =
     JObj [(ascii ''choices'',
       JArr [JObj [(ascii ''message'', JObj [(ascii ''content'', JArr [JStr (ascii ''Improved text'')])])]])]"

definition content_parts :: response where
  \<open>content_parts =
     json_response 200 no_headers
       (ascii ''{"choices":[{"message":{"content":["Improved text"]}}]}'') content_parts_body\<close>

definition error_envelope_body :: jsval where
  "error_envelope_body =
     JObj [(ascii ''error'',
       JObj [(ascii ''message'', JStr (ascii ''boom'')), (ascii ''type'', JStr (ascii ''server_error''))])]"

definition error_envelope_text :: jsstring where
  \<open>error_envelope_text = ascii ''{"error":{"message":"boom","type":"server_error"}}''\<close>

definition error_envelope :: "nat \<Rightarrow> response" where
  "error_envelope st = json_response st no_headers error_envelope_text error_envelope_body"

text \<open>
  A response whose connection ends while its body is read: \<^verbatim>\<open>text()\<close> and \<^verbatim>\<open>json()\<close> reject
  with the \<^verbatim>\<open>TypeError\<close> that the platform's \<^verbatim>\<open>fetch\<close> raises then.
\<close>

definition terminated_body :: "nat \<Rightarrow> response" where
  "terminated_body st =
     \<lparr>status = st, headers = no_headers,
      body_text = Inl (Thrown_TypeError (ascii ''terminated'')),
      body_json = Inl (Thrown_TypeError (ascii ''terminated''))\<rparr>"

text \<open>
  A configuration whose endpoint is no URL, and what \<^verbatim>\<open>fetch\<close> rejects with for it, before
  any connection is tried.
\<close>

definition proxy_config :: LLMConfig where
  "proxy_config = example_config\<lparr>apiEndpoint := ascii ''my-fetch-proxy/v1''\<rparr>"

definition url_rejected :: thrown where
  "url_rejected = Thrown_TypeError (ascii ''Failed to parse URL from my-fetch-proxy/v1'')"

section \<open>Strings: trimming and inclusion\<close>

lemma dropWhile_all: "(\<forall>x\<in>set (dropWhile P s). P x) \<longleftrightarrow> (\<forall>x\<in>set s. P x)"
  by (induction s) auto

lemma trim_blank: "trim s = [] \<longleftrightarrow> list_all isWhiteSpace s"
  by (simp add: trim_def list_all_iff dropWhile_all)

lemma str_includes_here: "str_includes (t @ b) t"
proof (cases "t @ b")
  case Nil
  then show ?thesis by simp
next
  case (Cons c cs)
  have "take (length t) (t @ b) = t" by simp
  then have "take (length t) (c # cs) = t" using Cons by simp
  then show ?thesis using Cons by simp
qed

lemma str_includes_append: "str_includes (a @ t @ b) t"
  by (induction a) (simp_all add: str_includes_here)

section \<open>The steps of \<^verbatim>\<open>refactorPrompt\<close>\<close>

lemma validateApiKey_blank:
  "list_all isWhiteSpace key \<Longrightarrow>
   validateApiKey key =
     Inl \<lparr>message = ascii ''No API key configured. Please set your API key in Settings > Extensions > PromptLint.'',
          code = NO_API_KEY\<rparr>"
  by (simp add: validateApiKey_def trim_blank)

lemma validateApiKey_present:
  "\<not> list_all isWhiteSpace key \<Longrightarrow> validateApiKey key = Inr ()"
  by (auto simp add: validateApiKey_def trim_blank)

lemma refactorPrompt_result:
  "\<not> list_all isWhiteSpace (apiKey config) \<Longrightarrow>
   result (refactorPrompt config fetch rawPrompt) =
     (case (case fetch (fetch_request config rawPrompt) of
              Inl e \<Rightarrow> Inl e
            | Inr response \<Rightarrow> interpret_response response) of
        Inl error \<Rightarrow> Inl (catch_block error)
      | Inr refactored \<Rightarrow> Inr refactored)"
  by (simp add: refactorPrompt_def validateApiKey_present Let_def)

lemma refactorPrompt_response:
  "\<not> list_all isWhiteSpace (apiKey config) \<Longrightarrow> fetch (fetch_request config rawPrompt) = Inr r \<Longrightarrow>
   result (refactorPrompt config fetch rawPrompt) =
     (case interpret_response r of
        Inl error \<Rightarrow> Inl (catch_block error)
      | Inr refactored \<Rightarrow> Inr refactored)"
  by (simp add: refactorPrompt_result)

lemma example_key_present: "\<not> list_all isWhiteSpace (apiKey example_config)"
  by (simp add: example_config_def ascii_def isWhiteSpace_def)

lemma blank_key_blank: "list_all isWhiteSpace (apiKey blank_key_config)"
  by (simp add: blank_key_config_def example_config_def ascii_def isWhiteSpace_def)

section \<open>The pre-flight check of the key\<close>

text \<open>
  Claim C3. For every configuration whose \<^verbatim>\<open>apiKey\<close> is empty or consists of white space
  only, \<^verbatim>\<open>refactorPrompt\<close> rejects with an error of code \<^verbatim>\<open>NO_API_KEY\<close> and has made no
  call of \<^verbatim>\<open>fetch\<close>, whatever the network would have answered.
\<close>

theorem blank_key_fails_before_any_call:
  "list_all isWhiteSpace (apiKey config) \<Longrightarrow>
   result (refactorPrompt config fetch rawPrompt) =
     Inl \<lparr>message = ascii ''No API key configured. Please set your API key in Settings > Extensions > PromptLint.'',
          code = NO_API_KEY\<rparr> \<and>
   calls (refactorPrompt config fetch rawPrompt) = []"
  by (simp add: refactorPrompt_def validateApiKey_blank)

theorem blank_key_fails_before_any_call_witness:
  "list_all isWhiteSpace (apiKey blank_key_config) \<and>
   result (refactorPrompt blank_key_config (respond improved_text) (ascii ''hello'')) =
     Inl \<lparr>message = ascii ''No API key configured. Please set your API key in Settings > Extensions > PromptLint.'',
          code = NO_API_KEY\<rparr> \<and>
   calls (refactorPrompt blank_key_config (respond improved_text) (ascii ''hello'')) = []"
  using blank_key_fails_before_any_call [of blank_key_config "respond improved_text" "ascii ''hello''"]
    blank_key_blank
  by simp

section \<open>The status of the response\<close>

text \<open>
  Claim C4, as amended. For every response with status 429, \<^verbatim>\<open>refactorPrompt\<close> rejects with
  an error of code \<^verbatim>\<open>RATE_LIMIT\<close>. When the response has a \<^verbatim>\<open>retry-after\<close> header with a
  value \<open>n\<close> that is not empty, the message contains \<^verbatim>\<open>in n seconds\<close>; when the header is
  absent or its value is empty, the message is the generic
  \<^verbatim>\<open>Rate limit exceeded. Please try again later.\<close>
\<close>

theorem rate_limit_429:
  assumes "\<not> list_all isWhiteSpace (apiKey config)"
    and "fetch (fetch_request config rawPrompt) = Inr r"
    and "status r = 429"
  shows "\<exists>e. result (refactorPrompt config fetch rawPrompt) = Inl e \<and> code e = RATE_LIMIT \<and>
     (\<forall>n. headers r (ascii ''retry-after'') = Some n \<and> n \<noteq> [] \<longrightarrow>
        str_includes (message e) (ascii ''in '' @ n @ ascii '' seconds'')) \<and>
     (headers r (ascii ''retry-after'') = None \<or> headers r (ascii ''retry-after'') = Some [] \<longrightarrow>
        message e = ascii ''Rate limit exceeded. Please try again later.'')"
proof -
  let ?hint = "case headers r (ascii ''retry-after'') of
                 None \<Rightarrow> ascii ''later''
               | Some v \<Rightarrow> if v = [] then ascii ''later'' else ascii ''in '' @ v @ ascii '' seconds''"
  let ?e = "\<lparr>message = ascii ''Rate limit exceeded. Please try again '' @ ?hint @ ascii ''.'',
             code = RATE_LIMIT\<rparr>"
  have res: "result (refactorPrompt config fetch rawPrompt) = Inl ?e"
    using assms by (simp add: refactorPrompt_response interpret_response_def catch_block_def)
  have present: "str_includes (message ?e) (ascii ''in '' @ n @ ascii '' seconds'')"
    if "headers r (ascii ''retry-after'') = Some n" "n \<noteq> []" for n
    using that str_includes_append [of "ascii ''Rate limit exceeded. Please try again ''"
        "ascii ''in '' @ n @ ascii '' seconds''" "ascii ''.''"]
    by simp
  have absent: "message ?e = ascii ''Rate limit exceeded. Please try again later.''"
    if "headers r (ascii ''retry-after'') = None \<or> headers r (ascii ''retry-after'') = Some []"
    using that by (auto simp add: ascii_def)
  show ?thesis using res present absent by auto
qed

theorem rate_limit_429_witness:
  "\<not> list_all isWhiteSpace (apiKey example_config) \<and>
   status (empty_response 429 (retry_after (ascii ''30''))) = 429 \<and>
   headers (empty_response 429 (retry_after (ascii ''30''))) (ascii ''retry-after'') = Some (ascii ''30'') \<and>
   result (refactorPrompt example_config (respond (empty_response 429 (retry_after (ascii ''30'')))) (ascii ''hello'')) =
     Inl \<lparr>message = ascii ''Rate limit exceeded. Please try again in 30 seconds.'', code = RATE_LIMIT\<rparr> \<and>
   str_includes (ascii ''Rate limit exceeded. Please try again in 30 seconds.'') (ascii ''in 30 seconds'') \<and>
   headers (empty_response 429 no_headers) (ascii ''retry-after'') = None \<and>
   result (refactorPrompt example_config (respond (empty_response 429 no_headers)) (ascii ''hello'')) =
     Inl \<lparr>message = ascii ''Rate limit exceeded. Please try again later.'', code = RATE_LIMIT\<rparr>"
  using rate_limit_429 [of example_config "respond (empty_response 429 (retry_after (ascii ''30'')))"
      "ascii ''hello''" "empty_response 429 (retry_after (ascii ''30''))"]
    rate_limit_429 [of example_config "respond (empty_response 429 no_headers)"
      "ascii ''hello''" "empty_response 429 no_headers"]
    example_key_present
  by (simp add: refactorPrompt_response interpret_response_def catch_block_def respond_def
      empty_response_def retry_after_def no_headers_def ascii_def)

text \<open>
  The claim as it was stated fails for a \<^verbatim>\<open>retry-after\<close> header that is present with an
  empty value: line 134 tests the value for truth, the empty string is not true, and the
  message reads \<^verbatim>\<open>later\<close>, not \<^verbatim>\<open>in  seconds\<close>.
\<close>

theorem rate_limit_empty_retry_after:
  "status (empty_response 429 (retry_after [])) = 429 \<and>
   headers (empty_response 429 (retry_after [])) (ascii ''retry-after'') = Some [] \<and>
   result (refactorPrompt example_config (respond (empty_response 429 (retry_after []))) (ascii ''hello'')) =
     Inl \<lparr>message = ascii ''Rate limit exceeded. Please try again later.'', code = RATE_LIMIT\<rparr> \<and>
   \<not> str_includes (ascii ''Rate limit exceeded. Please try again later.'') (ascii ''in '' @ [] @ ascii '' seconds'')"
  using example_key_present
  by (simp add: refactorPrompt_response interpret_response_def catch_block_def respond_def
      empty_response_def retry_after_def ascii_def)

text \<open>
  Claim C5. For every response with status 401, \<^verbatim>\<open>refactorPrompt\<close> rejects with an error of
  code \<^verbatim>\<open>NO_API_KEY\<close>, the code of the pre-flight check, and its message differs from the
  message of every error the pre-flight check \<^verbatim>\<open>validateApiKey\<close> raises.
\<close>

theorem unauthorized_401:
  assumes "\<not> list_all isWhiteSpace (apiKey config)"
    and "fetch (fetch_request config rawPrompt) = Inr r"
    and "status r = 401"
  shows "\<exists>e. result (refactorPrompt config fetch rawPrompt) = Inl e \<and> code e = NO_API_KEY \<and>
     (\<forall>key e0. validateApiKey key = Inl e0 \<longrightarrow> code e0 = NO_API_KEY \<and> message e \<noteq> message e0)"
proof -
  let ?e = "\<lparr>message = ascii ''Invalid API key. Please check your API key in Settings > Extensions > PromptLint.'',
             code = NO_API_KEY\<rparr>"
  have res: "result (refactorPrompt config fetch rawPrompt) = Inl ?e"
    using assms by (simp add: refactorPrompt_response interpret_response_def catch_block_def)
  have differ: "code e0 = NO_API_KEY \<and> message ?e \<noteq> message e0" if "validateApiKey key = Inl e0" for key e0
    using that by (auto simp add: validateApiKey_def ascii_def split: if_splits)
  show ?thesis using res differ by auto
qed

theorem unauthorized_401_witness:
  "\<not> list_all isWhiteSpace (apiKey example_config) \<and>
   status (empty_response 401 no_headers) = 401 \<and>
   result (refactorPrompt example_config (respond (empty_response 401 no_headers)) (ascii ''hello'')) =
     Inl \<lparr>message = ascii ''Invalid API key. Please check your API key in Settings > Extensions > PromptLint.'',
          code = NO_API_KEY\<rparr> \<and>
   validateApiKey [] =
     Inl \<lparr>message = ascii ''No API key configured. Please set your API key in Settings > Extensions > PromptLint.'',
          code = NO_API_KEY\<rparr>"
  using unauthorized_401 [of example_config "respond (empty_response 401 no_headers)"
      "ascii ''hello''" "empty_response 401 no_headers"]
    example_key_present
  by (simp add: refactorPrompt_response interpret_response_def catch_block_def respond_def
      empty_response_def validateApiKey_def)

text \<open>
  Claim C6, as amended. For every response whose status is outside 200 to 299 and is
  neither 429 nor 401, and whose body is read as the text \<open>b\<close>, \<^verbatim>\<open>refactorPrompt\<close> rejects
  with an error of code \<^verbatim>\<open>API_ERROR\<close> whose message contains the decimal status and
  contains \<open>b\<close>.
\<close>

theorem other_status_api_error:
  assumes "\<not> list_all isWhiteSpace (apiKey config)"
    and "fetch (fetch_request config rawPrompt) = Inr r"
    and "status r < 200 \<or> 299 < status r"
    and "status r \<noteq> 429" and "status r \<noteq> 401"
    and "body_text r = Inr b"
  shows "\<exists>e. result (refactorPrompt config fetch rawPrompt) = Inl e \<and> code e = API_ERROR \<and>
     str_includes (message e) (decimal (status r)) \<and> str_includes (message e) b"
proof -
  let ?e = "\<lparr>message = ascii ''API request failed ('' @ decimal (status r) @ ascii ''): '' @ b,
             code = API_ERROR\<rparr>"
  have "\<not> ok r" using assms(3) by (auto simp add: ok_def)
  then have res: "result (refactorPrompt config fetch rawPrompt) = Inl ?e"
    using assms by (simp add: refactorPrompt_response interpret_response_def catch_block_def)
  have st: "str_includes (message ?e) (decimal (status r))"
    using str_includes_append [of "ascii ''API request failed (''" "decimal (status r)" "ascii ''): '' @ b"]
    by simp
  have bd: "str_includes (message ?e) b"
    using str_includes_append [of "ascii ''API request failed ('' @ decimal (status r) @ ascii ''): ''" b "[]"]
    by simp
  show ?thesis using res st bd by auto
qed

theorem other_status_api_error_witness:
  "\<not> list_all isWhiteSpace (apiKey example_config) \<and>
   status server_exploded = 500 \<and>
   body_text server_exploded = Inr (ascii ''server exploded'') \<and>
   result (refactorPrompt example_config (respond server_exploded) (ascii ''hello'')) =
     Inl \<lparr>message = ascii ''API request failed (500): server exploded'', code = API_ERROR\<rparr> \<and>
   str_includes (ascii ''API request failed (500): server exploded'') (ascii ''500'') \<and>
   str_includes (ascii ''API request failed (500): server exploded'') (ascii ''server exploded'')"
  using other_status_api_error [of example_config "respond server_exploded" "ascii ''hello''"
      server_exploded "ascii ''server exploded''"]
    example_key_present
  by (simp add: refactorPrompt_response interpret_response_def catch_block_def respond_def
      server_exploded_def ok_def decimal.simps digit_def ascii_def)

text \<open>
  The claim as it was stated speaks of every such response. When \<^verbatim>\<open>text()\<close> rejects at line
  149 there is no body text, the \<^verbatim>\<open>LLMError\<close> of line 150 is never built, and the
  \<^verbatim>\<open>catch\<close> block wraps what was thrown: the message of a response with status 503 then
  holds no \<^verbatim>\<open>503\<close>.
\<close>

theorem unread_body_drops_status:
  "status (terminated_body 503) = 503 \<and>
   body_text (terminated_body 503) = Inl (Thrown_TypeError (ascii ''terminated'')) \<and>
   result (refactorPrompt example_config (respond (terminated_body 503)) (ascii ''hello'')) =
     Inl \<lparr>message = ascii ''Unexpected error: terminated'', code = API_ERROR\<rparr> \<and>
   decimal 503 = ascii ''503'' \<and>
   \<not> str_includes (ascii ''Unexpected error: terminated'') (ascii ''503'')"
  using example_key_present
  by (simp add: refactorPrompt_response interpret_response_def catch_block_def respond_def
      terminated_body_def no_headers_def ok_def decimal.simps digit_def ascii_def)

section \<open>The parsed body of a successful response\<close>

lemma ToString_failure:
  "ToString v = Inl e \<Longrightarrow> e = Thrown_TypeError (ascii ''Cannot convert object to primitive value'')"
  "join_elements vs = Inl e \<Longrightarrow> e = Thrown_TypeError (ascii ''Cannot convert object to primitive value'')"
  by (induction v and vs rule: ToString_join_elements.induct)
    (auto split: if_splits sum.splits)

lemma catch_block_conversion:
  "catch_block (Thrown_TypeError (ascii ''Cannot convert object to primitive value'')) =
     \<lparr>message = ascii ''Unexpected error: Cannot convert object to primitive value'', code = API_ERROR\<rparr>"
  by (simp add: catch_block_def ascii_def)

lemma success_status: "200 \<le> status r \<Longrightarrow> status r \<le> 299 \<Longrightarrow> status r \<noteq> 429 \<and> status r \<noteq> 401 \<and> ok r"
  by (simp add: ok_def)

lemma interpret_embedded_error:
  assumes "200 \<le> status r" and "status r \<le> 299"
    and "body_json r = Inr data" and "\<not> nullish data" and "truthy (get_prop data (ascii ''error''))"
  shows "interpret_response r =
     (case ToString (get_prop (get_prop data (ascii ''error'')) (ascii ''message'')) of
        Inl e \<Rightarrow> Inl e
      | Inr m \<Rightarrow> Inl (Thrown_LLMError \<lparr>message = ascii ''API error: '' @ m, code = API_ERROR\<rparr>))"
  using assms success_status [of r] by (simp add: interpret_response_def read_prop_def)

lemma interpret_content:
  assumes "200 \<le> status r" and "status r \<le> 299"
    and "body_json r = Inr data" and "\<not> nullish data" and "\<not> truthy (get_prop data (ascii ''error''))"
  shows "interpret_response r =
     (if \<not> truthy (choice_content data) then
        Inl (Thrown_LLMError
          \<lparr>message = ascii ''Invalid response from API: No content in response'', code = INVALID_RESPONSE\<rparr>)
      else call_trim (choice_content data))"
  using assms success_status [of r] by (simp add: interpret_response_def read_prop_def Let_def)

lemma choice_content_nullish: "nullish data \<Longrightarrow> choice_content data = JUndefined"
  by (cases data) (simp_all add: choice_content_def opt_chain_def)

text \<open>
  Claim C7, as amended. For every response whose parsed body has an \<^verbatim>\<open>error\<close> object: with
  status 429 the error has code \<^verbatim>\<open>RATE_LIMIT\<close>; with status 401, code \<^verbatim>\<open>NO_API_KEY\<close>; with
  any other status outside 200 to 299, the message is the one of the failed request, made
  of the status and the body text; and with a status in 200 to 299 the error has code
  \<^verbatim>\<open>API_ERROR\<close>, whatever \<^verbatim>\<open>choices\<close> holds, and its message is \<^verbatim>\<open>API error: \<close> followed by
  the embedded message when that is a string.
\<close>

theorem embedded_error_after_status:
  assumes "\<not> list_all isWhiteSpace (apiKey config)"
    and "fetch (fetch_request config rawPrompt) = Inr r"
    and "body_json r = Inr data"
    and "get_prop data (ascii ''error'') = JObj members"
  shows "(status r = 429 \<longrightarrow>
           (\<exists>e. result (refactorPrompt config fetch rawPrompt) = Inl e \<and> code e = RATE_LIMIT)) \<and>
         (status r = 401 \<longrightarrow>
           (\<exists>e. result (refactorPrompt config fetch rawPrompt) = Inl e \<and> code e = NO_API_KEY)) \<and>
         ((status r < 200 \<or> 299 < status r) \<and> status r \<noteq> 429 \<and> status r \<noteq> 401 \<longrightarrow>
           (\<forall>b. body_text r = Inr b \<longrightarrow>
              result (refactorPrompt config fetch rawPrompt) =
                Inl \<lparr>message = ascii ''API request failed ('' @ decimal (status r) @ ascii ''): '' @ b,
                     code = API_ERROR\<rparr>)) \<and>
         (200 \<le> status r \<and> status r \<le> 299 \<longrightarrow>
           (\<exists>e. result (refactorPrompt config fetch rawPrompt) = Inl e \<and> code e = API_ERROR \<and>
              (\<forall>m. get_prop (JObj members) (ascii ''message'') = JStr m \<longrightarrow>
                 message e = ascii ''API error: '' @ m)))"
proof -
  have res: "result (refactorPrompt config fetch rawPrompt) =
      (case interpret_response r of Inl error \<Rightarrow> Inl (catch_block error) | Inr refactored \<Rightarrow> Inr refactored)"
    using assms(1,2) by (rule refactorPrompt_response)
  have rate: "\<exists>e. result (refactorPrompt config fetch rawPrompt) = Inl e \<and> code e = RATE_LIMIT"
    if "status r = 429"
    using that by (simp add: res interpret_response_def catch_block_def)
  have auth: "\<exists>e. result (refactorPrompt config fetch rawPrompt) = Inl e \<and> code e = NO_API_KEY"
    if "status r = 401"
    using that by (simp add: res interpret_response_def catch_block_def)
  have other: "result (refactorPrompt config fetch rawPrompt) =
      Inl \<lparr>message = ascii ''API request failed ('' @ decimal (status r) @ ascii ''): '' @ b,
           code = API_ERROR\<rparr>"
    if "status r < 200 \<or> 299 < status r" "status r \<noteq> 429" "status r \<noteq> 401" "body_text r = Inr b" for b
  proof -
    have "\<not> ok r" using that(1) by (auto simp add: ok_def)
    then show ?thesis using that by (simp add: res interpret_response_def catch_block_def)
  qed
  have embedded: "\<exists>e. result (refactorPrompt config fetch rawPrompt) = Inl e \<and> code e = API_ERROR \<and>
      (\<forall>m. get_prop (JObj members) (ascii ''message'') = JStr m \<longrightarrow> message e = ascii ''API error: '' @ m)"
    if "200 \<le> status r" "status r \<le> 299"
  proof -
    have data: "\<not> nullish data" using assms(4) by (cases data) simp_all
    have step: "interpret_response r =
        (case ToString (get_prop (JObj members) (ascii ''message'')) of
           Inl e \<Rightarrow> Inl e
         | Inr m \<Rightarrow> Inl (Thrown_LLMError \<lparr>message = ascii ''API error: '' @ m, code = API_ERROR\<rparr>))"
      using interpret_embedded_error [OF that assms(3) data] assms(4) by simp
    show ?thesis
    proof (cases "ToString (get_prop (JObj members) (ascii ''message''))")
      case (Inl e)
      then have "e = Thrown_TypeError (ascii ''Cannot convert object to primitive value'')"
        by (rule ToString_failure(1))
      then show ?thesis
        using Inl by (auto simp add: res step catch_block_conversion)
    next
      case (Inr m)
      then show ?thesis
        by (auto simp add: res step catch_block_def)
    qed
  qed
  show ?thesis using rate auth other embedded by blast
qed

theorem embedded_error_after_status_witness:
  "\<not> list_all isWhiteSpace (apiKey example_config) \<and>
   get_prop error_envelope_body (ascii ''error'') =
     JObj [(ascii ''message'', JStr (ascii ''boom'')), (ascii ''type'', JStr (ascii ''server_error''))] \<and>
   result (refactorPrompt example_config (respond (error_envelope 429)) (ascii ''hello'')) =
     Inl \<lparr>message = ascii ''Rate limit exceeded. Please try again later.'', code = RATE_LIMIT\<rparr> \<and>
   result (refactorPrompt example_config (respond (error_envelope 401)) (ascii ''hello'')) =
     Inl \<lparr>message = ascii ''Invalid API key. Please check your API key in Settings > Extensions > PromptLint.'',
          code = NO_API_KEY\<rparr> \<and>
   result (refactorPrompt example_config (respond (error_envelope 500)) (ascii ''hello'')) =
     Inl \<lparr>message = ascii ''API request failed (500): '' @ error_envelope_text,
          code = API_ERROR\<rparr> \<and>
   result (refactorPrompt example_config (respond (error_envelope 200)) (ascii ''hello'')) =
     Inl \<lparr>message = ascii ''API error: boom'', code = API_ERROR\<rparr>"
  using embedded_error_after_status [of example_config "respond (error_envelope 429)" "ascii ''hello''"
      "error_envelope 429" error_envelope_body]
    embedded_error_after_status [of example_config "respond (error_envelope 401)" "ascii ''hello''"
      "error_envelope 401" error_envelope_body]
    embedded_error_after_status [of example_config "respond (error_envelope 500)" "ascii ''hello''"
      "error_envelope 500" error_envelope_body]
    embedded_error_after_status [of example_config "respond (error_envelope 200)" "ascii ''hello''"
      "error_envelope 200" error_envelope_body]
    example_key_present
  by (simp add: refactorPrompt_response interpret_response_def catch_block_def respond_def
      error_envelope_def error_envelope_body_def json_response_def no_headers_def ok_def read_prop_def
      decimal.simps digit_def ascii_def)

text \<open>
  The claim as it was stated makes the message the embedded message itself; line 161 puts
  \<^verbatim>\<open>API error: \<close> before it.
\<close>

theorem embedded_error_message_prefixed:
  "status (error_envelope 200) = 200 \<and>
   body_json (error_envelope 200) = Inr error_envelope_body \<and>
   get_prop (get_prop error_envelope_body (ascii ''error'')) (ascii ''message'') = JStr (ascii ''boom'') \<and>
   result (refactorPrompt example_config (respond (error_envelope 200)) (ascii ''hello'')) =
     Inl \<lparr>message = ascii ''API error: boom'', code = API_ERROR\<rparr> \<and>
   ascii ''API error: boom'' \<noteq> ascii ''boom''"
  using example_key_present
  by (simp add: refactorPrompt_response interpret_response_def catch_block_def respond_def
      error_envelope_def error_envelope_body_def json_response_def ok_def read_prop_def ascii_def)

text \<open>
  Claim C1, as amended. For every response with a status in 200 to 299 whose parsed body is
  not \<^verbatim>\<open>null\<close> and has no \<^verbatim>\<open>error\<close> member that counts as true: when
  \<^verbatim>\<open>choices[0].message.content\<close> is absent or counts as false (\<^verbatim>\<open>null\<close>, \<^verbatim>\<open>false\<close>, zero, the
  empty string), \<^verbatim>\<open>refactorPrompt\<close> rejects with an error of code \<^verbatim>\<open>INVALID_RESPONSE\<close>; when it
  is a string that is not empty, \<^verbatim>\<open>refactorPrompt\<close> resolves to that string, trimmed.
\<close>

theorem content_of_first_choice:
  assumes "\<not> list_all isWhiteSpace (apiKey config)"
    and "fetch (fetch_request config rawPrompt) = Inr r"
    and "200 \<le> status r" and "status r \<le> 299"
    and "body_json r = Inr data"
    and "\<not> nullish data"
    and "\<not> truthy (get_prop data (ascii ''error''))"
  shows "(\<not> truthy (choice_content data) \<longrightarrow>
           result (refactorPrompt config fetch rawPrompt) =
             Inl \<lparr>message = ascii ''Invalid response from API: No content in response'',
                  code = INVALID_RESPONSE\<rparr>) \<and>
         (\<forall>s. choice_content data = JStr s \<and> s \<noteq> [] \<longrightarrow>
           result (refactorPrompt config fetch rawPrompt) = Inr (trim s))"
  using assms(1,2) interpret_content [OF assms(3-7)]
  by (simp add: refactorPrompt_response catch_block_def)

theorem content_of_first_choice_witness:
  "\<not> list_all isWhiteSpace (apiKey example_config) \<and>
   status empty_choices = 200 \<and>
   body_json empty_choices = Inr (JObj [(ascii ''choices'', JArr [])]) \<and>
   choice_content (JObj [(ascii ''choices'', JArr [])]) = JUndefined \<and>
   result (refactorPrompt example_config (respond empty_choices) (ascii ''hello'')) =
     Inl \<lparr>message = ascii ''Invalid response from API: No content in response'',
          code = INVALID_RESPONSE\<rparr> \<and>
   status improved_text = 200 \<and>
   body_json improved_text = Inr improved_text_body \<and>
   choice_content improved_text_body = JStr (ascii ''  Improved text  '') \<and>
   result (refactorPrompt example_config (respond improved_text) (ascii ''hello'')) =
     Inr (ascii ''Improved text'')"
  using content_of_first_choice [of example_config "respond empty_choices" "ascii ''hello''"
      empty_choices "JObj [(ascii ''choices'', JArr [])]"]
    content_of_first_choice [of example_config "respond improved_text" "ascii ''hello''"
      improved_text improved_text_body]
    example_key_present
  by (simp add: refactorPrompt_response interpret_response_def catch_block_def respond_def
      empty_choices_def improved_text_def improved_text_body_def json_response_def ok_def read_prop_def
      choice_content_def opt_chain_def trim_def isWhiteSpace_def ascii_def)

text \<open>
  The claim as it was stated promises success for every content that is present and not
  empty. The declared type makes the content a string, but the cast of line 156 checks
  nothing: a content that is a list of parts passes the test of line 168, has no function
  \<^verbatim>\<open>trim\<close>, and the \<^verbatim>\<open>TypeError\<close> of line 175 leaves the \<^verbatim>\<open>catch\<close> block as an
  \<^verbatim>\<open>API_ERROR\<close>.
\<close>

theorem content_parts_not_trimmed:
  "status content_parts = 200 \<and>
   body_json content_parts = Inr content_parts_body \<and>
   get_prop content_parts_body (ascii ''error'') = JUndefined \<and>
   choice_content content_parts_body = JArr [JStr (ascii ''Improved text'')] \<and>
   result (refactorPrompt example_config (respond content_parts) (ascii ''hello'')) =
     Inl \<lparr>message = ascii ''Unexpected error: refactoredPrompt.trim is not a function'',
          code = API_ERROR\<rparr>"
  using example_key_present
  by (simp add: refactorPrompt_response interpret_response_def catch_block_def respond_def
      content_parts_def content_parts_body_def json_response_def ok_def read_prop_def
      choice_content_def opt_chain_def ascii_def)

text \<open>
  Claim C10. For every response with a status in 200 to 299 and no embedded error whose
  \<^verbatim>\<open>choices[0].message.content\<close> is a string that is not empty and holds white space only,
  \<^verbatim>\<open>refactorPrompt\<close> resolves to the empty string: line 168 tests the content before it is
  trimmed.
\<close>

theorem blank_content_succeeds_empty:
  assumes "\<not> list_all isWhiteSpace (apiKey config)"
    and "fetch (fetch_request config rawPrompt) = Inr r"
    and "200 \<le> status r" and "status r \<le> 299"
    and "body_json r = Inr data"
    and "\<not> truthy (get_prop data (ascii ''error''))"
    and "choice_content data = JStr s" and "s \<noteq> []" and "list_all isWhiteSpace s"
  shows "result (refactorPrompt config fetch rawPrompt) = Inr []"
proof -
  have data: "\<not> nullish data"
    using assms(7) choice_content_nullish [of data] by auto
  have "interpret_response r = Inr (trim s)"
    using interpret_content [OF assms(3-5) data assms(6)] assms(7,8) by simp
  then show ?thesis
    using assms(1,2,9) by (simp add: refactorPrompt_response trim_blank)
qed

theorem blank_content_succeeds_empty_witness:
  "\<not> list_all isWhiteSpace (apiKey example_config) \<and>
   status blank_content = 200 \<and>
   body_json blank_content = Inr blank_content_body \<and>
   get_prop blank_content_body (ascii ''error'') = JUndefined \<and>
   choice_content blank_content_body = JStr (ascii ''   '') \<and>
   list_all isWhiteSpace (ascii ''   '') \<and>
   result (refactorPrompt example_config (respond blank_content) (ascii ''hello'')) = Inr []"
  using blank_content_succeeds_empty [of example_config "respond blank_content" "ascii ''hello''"
      blank_content blank_content_body "ascii ''   ''"]
    example_key_present
  by (simp add: respond_def blank_content_def blank_content_body_def json_response_def
      choice_content_def opt_chain_def isWhiteSpace_def ascii_def)

section \<open>The request\<close>

text \<open>
  Claim C2. For every configuration and every raw input, every call of \<^verbatim>\<open>fetch\<close> that
  \<^verbatim>\<open>refactorPrompt\<close> makes carries a body with exactly two messages, the first of role
  \<^verbatim>\<open>system\<close> with the fixed instruction text, the second of role \<^verbatim>\<open>user\<close> with the raw input
  as it was given; \<^verbatim>\<open>model\<close> and \<^verbatim>\<open>max_tokens\<close> are the configuration's, and
  \<^verbatim>\<open>temperature\<close> is 0.7. When the key is not blank there is exactly one such call.
\<close>

theorem request_body_built_from_input:
  "list_all
     (\<lambda>c. \<exists>sys usr.
        get_prop (body c) (ascii ''messages'') = JArr [sys, usr] \<and>
        get_prop sys (ascii ''role'') = JStr (ascii ''system'') \<and>
        get_prop sys (ascii ''content'') = JStr SYSTEM_PROMPT \<and>
        get_prop usr (ascii ''role'') = JStr (ascii ''user'') \<and>
        get_prop usr (ascii ''content'') = JStr rawPrompt \<and>
        get_prop (body c) (ascii ''model'') = JStr (model config) \<and>
        get_prop (body c) (ascii ''max_tokens'') = JNum (maxTokens config) \<and>
        get_prop (body c) (ascii ''temperature'') = JNum (ascii ''0.7''))
     (calls (refactorPrompt config fetch rawPrompt)) \<and>
   (\<not> list_all isWhiteSpace (apiKey config) \<longrightarrow>
      calls (refactorPrompt config fetch rawPrompt) = [fetch_request config rawPrompt])"
proof (cases "validateApiKey (apiKey config)")
  case (Inl e)
  then have "list_all isWhiteSpace (apiKey config)"
    using validateApiKey_present [of "apiKey config"] by auto
  then show ?thesis using Inl by (simp add: refactorPrompt_def)
next
  case (Inr u)
  have keys: "ascii ''messages'' \<noteq> ascii ''model''" "ascii ''max_tokens'' \<noteq> ascii ''model''"
    "ascii ''max_tokens'' \<noteq> ascii ''messages''" "ascii ''temperature'' \<noteq> ascii ''model''"
    "ascii ''temperature'' \<noteq> ascii ''messages''" "ascii ''temperature'' \<noteq> ascii ''max_tokens''"
    "ascii ''content'' \<noteq> ascii ''role''"
    by (simp_all add: ascii_def)
  show ?thesis
    using Inr keys by (simp add: refactorPrompt_def Let_def fetch_request_def requestBody_def)
qed

theorem request_body_built_from_input_witness:
  "\<not> list_all isWhiteSpace (apiKey example_config) \<and>
   calls (refactorPrompt example_config (respond improved_text) (ascii ''  make it better  '')) =
     [fetch_request example_config (ascii ''  make it better  '')] \<and>
   body (fetch_request example_config (ascii ''  make it better  '')) =
     JObj [
       (ascii ''model'', JStr (ascii ''gpt-4'')),
       (ascii ''messages'', JArr [
          JObj [(ascii ''role'', JStr (ascii ''system'')), (ascii ''content'', JStr SYSTEM_PROMPT)],
          JObj [(ascii ''role'', JStr (ascii ''user'')), (ascii ''content'', JStr (ascii ''  make it better  ''))]]),
       (ascii ''max_tokens'', JNum (ascii ''2048'')),
       (ascii ''temperature'', JNum (ascii ''0.7''))]"
  using request_body_built_from_input [of "ascii ''  make it better  ''" example_config "respond improved_text"]
    example_key_present
  by (simp add: fetch_request_def requestBody_def example_config_def)

section \<open>The \<^verbatim>\<open>catch\<close> block\<close>

lemma interpret_json_rejected:
  "200 \<le> status r \<Longrightarrow> status r \<le> 299 \<Longrightarrow> body_json r = Inl e \<Longrightarrow> interpret_response r = Inl e"
  using success_status [of r] by (simp add: interpret_response_def)

text \<open>
  Claim C8, as amended. Whatever \<^verbatim>\<open>fetch\<close> rejects with, \<^verbatim>\<open>json()\<close> rejects with, or a later
  statement of the \<^verbatim>\<open>try\<close> block throws, is classified by the \<^verbatim>\<open>catch\<close> block: an
  \<^verbatim>\<open>LLMError\<close> is rethrown as it is, with its code and message; a \<^verbatim>\<open>TypeError\<close> whose
  message includes \<^verbatim>\<open>fetch\<close> becomes a \<^verbatim>\<open>NETWORK_ERROR\<close>; everything else becomes an
  \<^verbatim>\<open>API_ERROR\<close> whose message is \<^verbatim>\<open>Unexpected error: \<close> followed by the message of what
  was thrown.
\<close>

theorem thrown_values_classified:
  assumes "\<not> list_all isWhiteSpace (apiKey config)"
    and "fetch (fetch_request config rawPrompt) = Inl e \<or>
         (\<exists>r. fetch (fetch_request config rawPrompt) = Inr r \<and>
            (200 \<le> status r \<and> status r \<le> 299 \<and> body_json r = Inl e \<or>
             interpret_response r = Inl e))"
  shows "(\<forall>x. e = Thrown_LLMError x \<longrightarrow> result (refactorPrompt config fetch rawPrompt) = Inl x) \<and>
         (\<forall>m. e = Thrown_TypeError m \<and> str_includes m (ascii ''fetch'') \<longrightarrow>
            result (refactorPrompt config fetch rawPrompt) =
              Inl \<lparr>message = ascii ''Network error: Unable to connect to the API. Please check your internet connection.'',
                   code = NETWORK_ERROR\<rparr>) \<and>
         (\<forall>m. e = Thrown_TypeError m \<and> \<not> str_includes m (ascii ''fetch'') \<or>
              e = Thrown_Error m \<or> e = Thrown_value m \<longrightarrow>
            result (refactorPrompt config fetch rawPrompt) =
              Inl \<lparr>message = ascii ''Unexpected error: '' @ m, code = API_ERROR\<rparr>)"
proof -
  have "result (refactorPrompt config fetch rawPrompt) = Inl (catch_block e)"
    using assms by (auto simp add: refactorPrompt_result interpret_json_rejected)
  then show ?thesis by (auto simp add: catch_block_def)
qed

theorem thrown_values_classified_witness:
  "\<not> list_all isWhiteSpace (apiKey example_config) \<and>
   str_includes (ascii ''fetch failed'') (ascii ''fetch'') \<and>
   result (refactorPrompt example_config (reject (Thrown_TypeError (ascii ''fetch failed''))) (ascii ''hello'')) =
     Inl \<lparr>message = ascii ''Network error: Unable to connect to the API. Please check your internet connection.'',
          code = NETWORK_ERROR\<rparr> \<and>
   body_json (empty_response 200 no_headers) = Inl (Thrown_Error (ascii ''Unexpected end of JSON input'')) \<and>
   result (refactorPrompt example_config (respond (empty_response 200 no_headers)) (ascii ''hello'')) =
     Inl \<lparr>message = ascii ''Unexpected error: Unexpected end of JSON input'', code = API_ERROR\<rparr> \<and>
   interpret_response (empty_response 401 no_headers) =
     Inl (Thrown_LLMError
       \<lparr>message = ascii ''Invalid API key. Please check your API key in Settings > Extensions > PromptLint.'',
        code = NO_API_KEY\<rparr>) \<and>
   result (refactorPrompt example_config (respond (empty_response 401 no_headers)) (ascii ''hello'')) =
     Inl \<lparr>message = ascii ''Invalid API key. Please check your API key in Settings > Extensions > PromptLint.'',
          code = NO_API_KEY\<rparr>"
  using thrown_values_classified [of example_config "reject (Thrown_TypeError (ascii ''fetch failed''))"
      "ascii ''hello''" "Thrown_TypeError (ascii ''fetch failed'')"]
    thrown_values_classified [of example_config "respond (empty_response 200 no_headers)"
      "ascii ''hello''" "Thrown_Error (ascii ''Unexpected end of JSON input'')"]
    thrown_values_classified [of example_config "respond (empty_response 401 no_headers)"
      "ascii ''hello''" "Thrown_LLMError
       \<lparr>message = ascii ''Invalid API key. Please check your API key in Settings > Extensions > PromptLint.'',
        code = NO_API_KEY\<rparr>"]
    example_key_present
  by (simp add: refactorPrompt_result interpret_response_def catch_block_def respond_def reject_def
      empty_response_def ok_def ascii_def)

text \<open>
  The claim as it was stated maps a failure to \<^verbatim>\<open>NETWORK_ERROR\<close> when it is one of the
  connection. Line 184 does not ask that: it asks for a \<^verbatim>\<open>TypeError\<close> whose message
  includes \<^verbatim>\<open>fetch\<close>. An endpoint that is no URL and has \<^verbatim>\<open>fetch\<close> in its text is refused
  before any connection is tried, and the error is a \<^verbatim>\<open>NETWORK_ERROR\<close>; a connection that
  ends while \<^verbatim>\<open>json()\<close> reads the body of a response with status 200 gives an
  \<^verbatim>\<open>API_ERROR\<close>.
\<close>

theorem network_error_by_message_text:
  "fetch_request proxy_config (ascii ''hello'') =
     (fetch_request example_config (ascii ''hello'')) \<lparr>url := ascii ''my-fetch-proxy/v1''\<rparr> \<and>
   url_rejected = Thrown_TypeError (ascii ''Failed to parse URL from my-fetch-proxy/v1'') \<and>
   result (refactorPrompt proxy_config (reject url_rejected) (ascii ''hello'')) =
     Inl \<lparr>message = ascii ''Network error: Unable to connect to the API. Please check your internet connection.'',
          code = NETWORK_ERROR\<rparr> \<and>
   status (terminated_body 200) = 200 \<and>
   body_json (terminated_body 200) = Inl (Thrown_TypeError (ascii ''terminated'')) \<and>
   result (refactorPrompt example_config (respond (terminated_body 200)) (ascii ''hello'')) =
     Inl \<lparr>message = ascii ''Unexpected error: terminated'', code = API_ERROR\<rparr>"
proof -
  have key: "\<not> list_all isWhiteSpace (apiKey proxy_config)"
    by (simp add: proxy_config_def example_config_def ascii_def isWhiteSpace_def)
  have request: "fetch_request proxy_config (ascii ''hello'') =
      (fetch_request example_config (ascii ''hello'')) \<lparr>url := ascii ''my-fetch-proxy/v1''\<rparr>"
    by (simp add: fetch_request_def requestBody_def proxy_config_def example_config_def)
  have refused: "result (refactorPrompt proxy_config (reject url_rejected) (ascii ''hello'')) =
      Inl \<lparr>message = ascii ''Network error: Unable to connect to the API. Please check your internet connection.'',
           code = NETWORK_ERROR\<rparr>"
    using key by (simp add: refactorPrompt_result reject_def url_rejected_def catch_block_def ascii_def)
  have ended: "result (refactorPrompt example_config (respond (terminated_body 200)) (ascii ''hello'')) =
      Inl \<lparr>message = ascii ''Unexpected error: terminated'', code = API_ERROR\<rparr>"
    using example_key_present
    by (simp add: refactorPrompt_response interpret_response_def catch_block_def respond_def
        terminated_body_def ok_def ascii_def)
  show ?thesis
    using request refused ended by (simp add: url_rejected_def terminated_body_def)
qed

section \<open>The outcome as a function of the response\<close>

text \<open>
  Claim C9. How \<^verbatim>\<open>refactorPrompt\<close> settles once \<^verbatim>\<open>fetch\<close> has resolved is a function of the
  response's status, its \<^verbatim>\<open>retry-after\<close> header and its body alone: two calls whose
  responses agree on these settle alike, whatever the prompts, the other settings and the
  other headers are. Interpreting the same response twice is the special case of equal
  responses.
\<close>

theorem outcome_determined_by_response:
  assumes "\<not> list_all isWhiteSpace (apiKey config)" and "\<not> list_all isWhiteSpace (apiKey config')"
    and "fetch (fetch_request config rawPrompt) = Inr r"
    and "fetch' (fetch_request config' rawPrompt') = Inr r'"
    and "status r = status r'"
    and "headers r (ascii ''retry-after'') = headers r' (ascii ''retry-after'')"
    and "body_text r = body_text r'"
    and "body_json r = body_json r'"
  shows "result (refactorPrompt config fetch rawPrompt) = result (refactorPrompt config' fetch' rawPrompt')"
proof -
  have "interpret_response r = interpret_response r'"
    using assms(5-8) by (simp add: interpret_response_def ok_def cong: sum.case_cong)
  then show ?thesis
    using assms(1-4) by (simp add: refactorPrompt_response)
qed

theorem outcome_determined_by_response_witness:
  "\<not> list_all isWhiteSpace (apiKey example_config) \<and>
   \<not> list_all isWhiteSpace (apiKey (example_config\<lparr>model := ascii ''gpt-4o''\<rparr>)) \<and>
   headers (empty_response 429 (retry_after (ascii ''30''))) (ascii ''retry-after'') =
     headers (empty_response 429 ((retry_after (ascii ''30''))(ascii ''date'' \<mapsto> ascii ''today'')))
       (ascii ''retry-after'') \<and>
   result (refactorPrompt example_config
       (respond (empty_response 429 (retry_after (ascii ''30'')))) (ascii ''hello'')) =
   result (refactorPrompt (example_config\<lparr>model := ascii ''gpt-4o''\<rparr>)
       (respond (empty_response 429 ((retry_after (ascii ''30''))(ascii ''date'' \<mapsto> ascii ''today''))))
       (ascii ''goodbye'')) \<and>
   result (refactorPrompt example_config (respond improved_text) (ascii ''hello'')) =
   result (refactorPrompt example_config (respond improved_text) (ascii ''hello''))"
  using outcome_determined_by_response [of example_config "example_config\<lparr>model := ascii ''gpt-4o''\<rparr>"
      "respond (empty_response 429 (retry_after (ascii ''30'')))" "ascii ''hello''"
      "empty_response 429 (retry_after (ascii ''30''))"
      "respond (empty_response 429 ((retry_after (ascii ''30''))(ascii ''date'' \<mapsto> ascii ''today'')))"
      "ascii ''goodbye''"
      "empty_response 429 ((retry_after (ascii ''30''))(ascii ''date'' \<mapsto> ascii ''today''))"]
    example_key_present
  by (simp add: respond_def empty_response_def retry_after_def example_config_def ascii_def)

end
